theory Spec2Isabelle
  imports Main
begin

section \<open>The patient queue: a linked list of heap-allocated nodes\<close>

text \<open>
  \<^verbatim>\<open>PatientNode\<close> objects are mutable and shared: the queue's \<^verbatim>\<open>tail\<close> field is an
  alias of the last node reachable from \<^verbatim>\<open>head\<close>, and \<^verbatim>\<open>enqueue\<close> links a new node by
  assigning to \<^verbatim>\<open>self.tail.next\<close>. The nodes therefore live in an explicit store. A
  reference is the index of the node in the store; a new object takes the next unused
  index, and objects are never freed. Python's \<^verbatim>\<open>None\<close> is \<open>None\<close>.
\<close>

type_synonym ref = nat

record PatientNode =
  patient_id :: string
  name :: string
  condition :: string
  nxt :: "ref option"

record PatientQueue =
  store :: "PatientNode list"
  head :: "ref option"
  tail :: "ref option"
  size_q :: int

definition PatientQueue_init :: PatientQueue where
  "PatientQueue_init = \<lparr>store = [], head = None, tail = None, size_q = 0\<rparr>"

definition is_empty :: "PatientQueue \<Rightarrow> bool" where
  "is_empty q = (head q = None)"

text \<open>
  \<^verbatim>\<open>enqueue\<close> draws \<^verbatim>\<open>str(uuid.uuid4())\<close> from the environment; the model takes that
  string as the argument \<open>uuid\<close> and keeps its first eight characters, as the source
  does. The result is the reference to the new node and the updated queue.
\<close>

definition enqueue :: "PatientQueue \<Rightarrow> string \<Rightarrow> string \<Rightarrow> string \<Rightarrow> ref \<times> PatientQueue" where
  "enqueue q uuid nm cond =
    (let pid = take 8 uuid;
         new_patient = length (store q);
         st = store q @ [\<lparr>patient_id = pid, name = nm, condition = cond, nxt = None\<rparr>];
         q1 = (if is_empty q
               then q\<lparr>store := st, head := Some new_patient, tail := Some new_patient\<rparr>
               else (case tail q of
                       Some t \<Rightarrow> q\<lparr>store := st[t := (st ! t)\<lparr>nxt := Some new_patient\<rparr>],
                                   tail := Some new_patient\<rparr>
                     | None \<Rightarrow> q\<lparr>store := st, tail := Some new_patient\<rparr>))
     in (new_patient, q1\<lparr>size_q := size_q q1 + 1\<rparr>))"

definition dequeue :: "PatientQueue \<Rightarrow> ref option \<times> PatientQueue" where
  "dequeue q =
    (if is_empty q then (None, q)
     else (case head q of
             None \<Rightarrow> (None, q)
           | Some patient_to_treat \<Rightarrow>
               (let q1 = q\<lparr>head := nxt (store q ! patient_to_treat)\<rparr>;
                    q2 = (if head q1 = None then q1\<lparr>tail := None\<rparr> else q1)
                in (Some patient_to_treat, q2\<lparr>size_q := size_q q2 - 1\<rparr>))))"

text \<open>What a caller reads from a node: identity, name and condition.\<close>

definition entry :: "PatientQueue \<Rightarrow> ref \<Rightarrow> string \<times> string \<times> string" where
  "entry q r = (patient_id (store q ! r), name (store q ! r), condition (store q ! r))"

text \<open>
  The linked structure. \<open>chain st r as\<close>: following \<^verbatim>\<open>next\<close> from \<open>r\<close> visits exactly the
  references \<open>as\<close>, all allocated, and ends in \<^verbatim>\<open>None\<close>. \<open>queue_inv q as\<close>: the queue
  \<open>q\<close> holds the nodes \<open>as\<close> in this order, \<^verbatim>\<open>tail\<close> is the last of them and \<^verbatim>\<open>size\<close>
  their number.
\<close>

fun chain :: "PatientNode list \<Rightarrow> ref option \<Rightarrow> ref list \<Rightarrow> bool" where
  "chain st r [] = (r = None)"
| "chain st r (a # as) = (r = Some a \<and> a < length st \<and> chain st (nxt (st ! a)) as)"

definition queue_inv :: "PatientQueue \<Rightarrow> ref list \<Rightarrow> bool" where
  "queue_inv q as =
    (chain (store q) (head q) as \<and> distinct as \<and>
     tail q = (if as = [] then None else Some (last as)) \<and>
     size_q q = int (length as))"

text \<open>Running several calls in a row.\<close>

fun enqueue_all :: "PatientQueue \<Rightarrow> (string \<times> string \<times> string) list \<Rightarrow> ref list \<times> PatientQueue" where
  "enqueue_all q [] = ([], q)"
| "enqueue_all q ((uuid, nm, cond) # es) =
    (let (r, q1) = enqueue q uuid nm cond; (rs, q2) = enqueue_all q1 es in (r # rs, q2))"

fun dequeue_n :: "nat \<Rightarrow> PatientQueue \<Rightarrow> ref option list \<times> PatientQueue" where
  "dequeue_n 0 q = ([], q)"
| "dequeue_n (Suc n) q =
    (let (r, q1) = dequeue q; (rs, q2) = dequeue_n n q1 in (r # rs, q2))"

datatype queue_op = Enqueue string string string | Dequeue

datatype queue_result = Enqueued ref | Dequeued "ref option"

fun run_op :: "PatientQueue \<Rightarrow> queue_op \<Rightarrow> queue_result \<times> PatientQueue" where
  "run_op q (Enqueue uuid nm cond) = (let (r, q1) = enqueue q uuid nm cond in (Enqueued r, q1))"
| "run_op q Dequeue = (let (r, q1) = dequeue q in (Dequeued r, q1))"

fun run_ops :: "PatientQueue \<Rightarrow> queue_op list \<Rightarrow> queue_result list \<times> PatientQueue" where
  "run_ops q [] = ([], q)"
| "run_ops q (op # ops) =
    (let (r, q1) = run_op q op; (rs, q2) = run_ops q1 ops in (r # rs, q2))"

text \<open>The references handed out by the enqueues of a trace, and those returned by its
  successful dequeues, in call order.\<close>

fun enqueued_refs :: "queue_result list \<Rightarrow> ref list" where
  "enqueued_refs [] = []"
| "enqueued_refs (Enqueued r # tr) = r # enqueued_refs tr"
| "enqueued_refs (Dequeued r # tr) = enqueued_refs tr"

fun dequeued_refs :: "queue_result list \<Rightarrow> ref list" where
  "dequeued_refs [] = []"
| "dequeued_refs (Dequeued (Some r) # tr) = r # dequeued_refs tr"
| "dequeued_refs (x # tr) = dequeued_refs tr"

section \<open>The treatment stack\<close>

text \<open>
  A history entry is the dictionary \<^verbatim>\<open>{"timestamp": ..., "detail": ...}\<close>. The detail is
  whatever the caller passes: the request layer passes \<^verbatim>\<open>request.json.get('detail')\<close>,
  which is \<^verbatim>\<open>None\<close> when the field is absent. \<^verbatim>\<open>push\<close> reads the clock; the model takes
  the formatted time as the argument \<open>now\<close>.
\<close>

record TreatmentStep =
  timestamp :: string
  detail :: "string option"

record TreatmentStack =
  items :: "TreatmentStep list"
  stack_patient_id :: "string option"
  initial_condition :: string
  status :: string
  assigned_doctor :: "string option"

definition TreatmentStack_init :: TreatmentStack where
  "TreatmentStack_init =
    \<lparr>items = [], stack_patient_id = None, initial_condition = [],
     status = ''Waiting'', assigned_doctor = None\<rparr>"

definition push :: "TreatmentStack \<Rightarrow> string \<Rightarrow> string option \<Rightarrow> TreatmentStack" where
  "push s now treatment_detail =
    s\<lparr>items := items s @ [\<lparr>timestamp = now, detail = treatment_detail\<rparr>]\<rparr>"

definition pop :: "TreatmentStack \<Rightarrow> TreatmentStep option \<times> TreatmentStack" where
  "pop s = (if items s = [] then (None, s)
            else (Some (last (items s)), s\<lparr>items := butlast (items s)\<rparr>))"

definition get_history :: "TreatmentStack \<Rightarrow> TreatmentStep list" where
  "get_history s = items s"

fun push_all :: "TreatmentStack \<Rightarrow> (string \<times> string option) list \<Rightarrow> TreatmentStack" where
  "push_all s [] = s"
| "push_all s ((now, d) # ds) = push_all (push s now d) ds"

fun pop_n :: "nat \<Rightarrow> TreatmentStack \<Rightarrow> TreatmentStep option list \<times> TreatmentStack" where
  "pop_n 0 s = ([], s)"
| "pop_n (Suc n) s = (let (r, s1) = pop s; (rs, s2) = pop_n n s1 in (r # rs, s2))"


section \<open>The specialization tree\<close>

text \<open>
  \<^verbatim>\<open>str.lower()\<close> on the ASCII range; a \<open>string\<close> is a list of bytes, and bytes outside
  \<open>A\<close>..\<open>Z\<close> are left as they are.
\<close>

definition lower_char :: "char \<Rightarrow> char" where
  "lower_char c =
    (if (65::nat) \<le> of_char c \<and> of_char c \<le> (90::nat) then char_of (of_char c + (32::nat)) else c)"

definition lower :: "string \<Rightarrow> string" where
  "lower s = map lower_char s"

text \<open>
  A node owns its children: every \<^verbatim>\<open>SpecializationNode\<close> is created inside
  \<^verbatim>\<open>add_specialization\<close> and stored in exactly one \<^verbatim>\<open>children\<close> list, so the object graph
  is a tree and is modelled as one. The \<^verbatim>\<open>doctors\<close> dictionary keeps insertion order and
  is an association list.
\<close>

datatype SpecializationNode =
  SpecializationNode (spec_name: string) (doctors: "(string \<times> string) list")
    (children: "SpecializationNode list")

record SpecializationTree =
  root :: SpecializationNode

text \<open>
  \<^verbatim>\<open>_find_node\<close> returns a reference to a node inside the tree, through which the caller
  then mutates that node. The reference is modelled as the position of the node: the list
  of child indices leading to it from the node the search started at. \<open>find_in_children\<close>
  is the \<^verbatim>\<open>for child in current_node.children\<close> loop, \<open>i\<close> being the index of the
  first child still to be visited.
\<close>

fun find_node :: "SpecializationNode \<Rightarrow> string \<Rightarrow> nat list option"
  and find_in_children :: "SpecializationNode list \<Rightarrow> nat \<Rightarrow> string \<Rightarrow> nat list option" where
  "find_node (SpecializationNode nm ds cs) n =
    (if lower nm = lower n then Some [] else find_in_children cs 0 n)"
| "find_in_children [] i n = None"
| "find_in_children (c # cs) i n =
    (case find_node c n of Some p \<Rightarrow> Some (i # p) | None \<Rightarrow> find_in_children cs (Suc i) n)"


fun update_at ::
  "SpecializationNode \<Rightarrow> nat list \<Rightarrow> (SpecializationNode \<Rightarrow> SpecializationNode) \<Rightarrow> SpecializationNode" where
  "update_at t [] f = f t"
| "update_at (SpecializationNode nm ds cs) (i # p) f =
    (if i < length cs then SpecializationNode nm ds (cs[i := update_at (cs ! i) p f])
     else SpecializationNode nm ds cs)"

definition append_child :: "string \<Rightarrow> SpecializationNode \<Rightarrow> SpecializationNode" where
  "append_child child_name parent_node =
    SpecializationNode (spec_name parent_node) (doctors parent_node)
      (children parent_node @ [SpecializationNode child_name [] []])"

text \<open>\<^verbatim>\<open>d[k] = v\<close> on an insertion-ordered dictionary.\<close>

fun dict_set :: "(string \<times> string) list \<Rightarrow> string \<Rightarrow> string \<Rightarrow> (string \<times> string) list" where
  "dict_set [] k v = [(k, v)]"
| "dict_set ((k', v') # d) k v = (if k' = k then (k, v) # d else (k', v') # dict_set d k v)"

definition set_doctor :: "string \<Rightarrow> string \<Rightarrow> SpecializationNode \<Rightarrow> SpecializationNode" where
  "set_doctor doctor_name description node =
    SpecializationNode (spec_name node) (dict_set (doctors node) doctor_name description)
      (children node)"

definition add_specialization ::
  "SpecializationTree \<Rightarrow> string \<Rightarrow> string \<Rightarrow> bool \<times> SpecializationTree" where
  "add_specialization t parent_name child_name =
    (case find_node (root t) parent_name of
       Some parent_node \<Rightarrow> (True, t\<lparr>root := update_at (root t) parent_node (append_child child_name)\<rparr>)
     | None \<Rightarrow> (False, t))"

definition assign_doctor ::
  "SpecializationTree \<Rightarrow> string \<Rightarrow> string \<Rightarrow> string \<Rightarrow> bool \<times> SpecializationTree" where
  "assign_doctor t specialization_name doctor_name description =
    (case find_node (root t) specialization_name of
       Some node \<Rightarrow> (True, t\<lparr>root := update_at (root t) node (set_doctor doctor_name description)\<rparr>)
     | None \<Rightarrow> (False, t))"

text \<open>The seed script: the calls of \<^verbatim>\<open>_seed_structure\<close> in source order, results ignored.\<close>

definition seed_specializations :: "string \<Rightarrow> (string \<times> string) list" where
  "seed_specializations root_name =
    [(root_name, ''Emergency''),
     (root_name, ''Internal Medicine''),
     (root_name, ''Surgery''),
     (''Internal Medicine'', ''Cardiology''),
     (''Internal Medicine'', ''Dermatology''),
     (''Internal Medicine'', ''Pediatrics''),
     (''Surgery'', ''Orthopedics''),
     (''Cardiology'', ''Electrophysiology''),
     (''Orthopedics'', ''Sports Medicine''),
     (''Emergency'', ''Trauma'')]"

definition seed_doctors :: "(string \<times> string \<times> string) list" where
  "seed_doctors =
    [(''Emergency'', ''Dr. Ramon Cruz'', ''Specializes in immediate care and triage management.''),
     (''Emergency'', ''Dra. Sofia Reyes'', ''Lead physician for non-critical emergency cases.''),
     (''Trauma'', ''Dr. Paolo Ocampo'',
        ''Expert in severe physical injury and complex trauma protocols.''),
     (''Trauma'', ''Dra. Lea Perez'',
        ''Focuses on stabilization and surgical planning for acute trauma.''),
     (''Internal Medicine'', ''Dr. Antonio Dizon'',
        ''General internal medicine and chronic disease management.''),
     (''Internal Medicine'', ''Dra. Maria Santos'',
        ''Focuses on diagnostic challenges and long-term adult care.''),
     (''Cardiology'', ''Dr. Jose Garcia'', ''Non-invasive cardiology and heart disease prevention.''),
     (''Electrophysiology'', ''Dra. Christine Lopez'',
        ''Specialist in heart rhythm disorders and pacemaker implantation.''),
     (''Dermatology'', ''Dra. Elena Mendoza'',
        ''Expert in complex skin conditions and dermatological procedures.''),
     (''Pediatrics'', ''Dra. Leila Gonzales'',
        ''Dedicated to pediatric primary care and infectious diseases in children.''),
     (''Surgery'', ''Dr. Roberto Lim'',
        ''General surgeon with focus on abdominal and soft tissue procedures.''),
     (''Orthopedics'', ''Dra. Carmen Ramos'',
        ''Specialist in joint replacement and geriatric orthopedic care.''),
     (''Sports Medicine'', ''Dr. Miguel Dela Cruz'',
        ''Expert in musculoskeletal injuries and rehabilitation.'')]"

definition seed_structure :: "SpecializationTree \<Rightarrow> SpecializationTree" where
  "seed_structure t =
    (let root_name = spec_name (root t);
         t1 = foldl (\<lambda>t (parent_name, child_name). snd (add_specialization t parent_name child_name))
                t (seed_specializations root_name)
     in foldl (\<lambda>t (specialization_name, doctor_name, description).
                 snd (assign_doctor t specialization_name doctor_name description))
          t1 seed_doctors)"

definition SpecializationTree_init :: "string \<Rightarrow> SpecializationTree" where
  "SpecializationTree_init hospital_name =
    seed_structure \<lparr>root = SpecializationNode hospital_name [] []\<rparr>"


section \<open>The hospital management system\<close>

text \<open>
  \<^verbatim>\<open>patient_records\<close> is a dictionary from identity to \<^verbatim>\<open>TreatmentStack\<close>; every stack is
  created for one key and reached only through it, so the dictionary is a map to values.
  Indexing it with a missing key raises \<^verbatim>\<open>KeyError\<close>. A method that can raise returns
  \<open>Inl\<close> of the error or \<open>Inr\<close> of its result, next to the state as the method left it.
\<close>

datatype py_error = KeyError string

record HospitalManagementSystem =
  hospital_name :: string
  patient_queue :: PatientQueue
  patient_records :: "string \<rightharpoonup> TreatmentStack"
  specializations :: SpecializationTree
  current_treatment_id :: "string option"
  current_patient_name :: "string option"
  current_patient_condition :: "string option"
  current_patient_doctor :: "string option"

text \<open>Truth value of an \<^verbatim>\<open>Optional[str]\<close>: \<^verbatim>\<open>None\<close> and the empty string are false.\<close>

fun truthy :: "string option \<Rightarrow> bool" where
  "truthy None = False"
| "truthy (Some s) = (s \<noteq> [])"

text \<open>The constructor; \<open>uuid1\<close> and \<open>uuid2\<close> are the two identities drawn for the
  pre-loaded patients.\<close>

definition HospitalManagementSystem_init :: "string \<Rightarrow> string \<Rightarrow> string \<Rightarrow> HospitalManagementSystem" where
  "HospitalManagementSystem_init hospital uuid1 uuid2 =
    (let (p1, q1) = enqueue PatientQueue_init uuid1 ''Alice Johnson'' ''Severe fever'';
         (p2, q2) = enqueue q1 uuid2 ''Bob Davis'' ''Broken arm'';
         id1 = patient_id (store q2 ! p1);
         id2 = patient_id (store q2 ! p2);
         recs1 = Map.empty(id1 \<mapsto> TreatmentStack_init
                   \<lparr>stack_patient_id := Some id1, initial_condition := condition (store q2 ! p1)\<rparr>);
         recs2 = recs1(id2 \<mapsto> TreatmentStack_init
                   \<lparr>stack_patient_id := Some id2, initial_condition := condition (store q2 ! p2)\<rparr>)
     in \<lparr>hospital_name = hospital,
         patient_queue = q2,
         patient_records = recs2,
         specializations = SpecializationTree_init hospital,
         current_treatment_id = None,
         current_patient_name = None,
         current_patient_condition = None,
         current_patient_doctor = None\<rparr>)"

definition register_patient ::
  "HospitalManagementSystem \<Rightarrow> string \<Rightarrow> string \<Rightarrow> string \<Rightarrow> string \<times> HospitalManagementSystem" where
  "register_patient s uuid nm cond =
    (let (new_patient, q) = enqueue (patient_queue s) uuid nm cond;
         pid = patient_id (store q ! new_patient);
         new_record = TreatmentStack_init\<lparr>stack_patient_id := Some pid, initial_condition := cond\<rparr>
     in (pid, s\<lparr>patient_queue := q, patient_records := (patient_records s)(pid \<mapsto> new_record)\<rparr>))"

definition treat_next_patient ::
  "HospitalManagementSystem \<Rightarrow> string \<Rightarrow> (py_error + string option) \<times> HospitalManagementSystem" where
  "treat_next_patient s now =
    (let (patient, q) = dequeue (patient_queue s);
         s1 = s\<lparr>patient_queue := q,
                current_treatment_id := None,
                current_patient_name := None,
                current_patient_condition := None,
                current_patient_doctor := None\<rparr>
     in (case patient of
           None \<Rightarrow> (Inr None, s1)
         | Some p \<Rightarrow>
             (let node = store q ! p;
                  s2 = s1\<lparr>current_treatment_id := Some (patient_id node),
                          current_patient_name := Some (name node),
                          current_patient_condition := Some (condition node)\<rparr>
              in (case patient_records s2 (patient_id node) of
                    None \<Rightarrow> (Inl (KeyError (patient_id node)), s2)
                  | Some record \<Rightarrow>
                      (Inr (Some (patient_id node)),
                       s2\<lparr>patient_records := (patient_records s2)(patient_id node \<mapsto>
                            push (record\<lparr>status := ''In Treatment''\<rparr>) now
                              (Some (''Initial Triage for '' @ condition node @ ''.'')))\<rparr>)))))"

definition add_treatment_step ::
  "HospitalManagementSystem \<Rightarrow> string \<Rightarrow> string option \<Rightarrow> (py_error + bool) \<times> HospitalManagementSystem" where
  "add_treatment_step s now d =
    (if \<not> truthy (current_treatment_id s) then (Inr False, s)
     else (case current_treatment_id s of
             None \<Rightarrow> (Inr False, s)
           | Some cur \<Rightarrow>
               (case patient_records s cur of
                  None \<Rightarrow> (Inl (KeyError cur), s)
                | Some record \<Rightarrow>
                    (Inr True, s\<lparr>patient_records := (patient_records s)(cur \<mapsto> push record now d)\<rparr>))))"

definition undo_last_treatment ::
  "HospitalManagementSystem \<Rightarrow> (py_error + bool) \<times> HospitalManagementSystem" where
  "undo_last_treatment s =
    (if \<not> truthy (current_treatment_id s) then (Inr False, s)
     else (case current_treatment_id s of
             None \<Rightarrow> (Inr False, s)
           | Some cur \<Rightarrow>
               (case patient_records s cur of
                  None \<Rightarrow> (Inl (KeyError cur), s)
                | Some record \<Rightarrow>
                    (let (popped, record') = pop record
                     in (Inr (popped \<noteq> None),
                         s\<lparr>patient_records := (patient_records s)(cur \<mapsto> record')\<rparr>)))))"

definition assign_doctor_to_current ::
  "HospitalManagementSystem \<Rightarrow> string option \<Rightarrow> (py_error + bool) \<times> HospitalManagementSystem" where
  "assign_doctor_to_current s doctor_name =
    (if \<not> truthy (current_treatment_id s) then (Inr False, s)
     else (case current_treatment_id s of
             None \<Rightarrow> (Inr False, s)
           | Some cur \<Rightarrow>
               (case patient_records s cur of
                  None \<Rightarrow> (Inl (KeyError cur), s)
                | Some record \<Rightarrow>
                    (Inr True,
                     s\<lparr>patient_records :=
                          (patient_records s)(cur \<mapsto> record\<lparr>assigned_doctor := doctor_name\<rparr>)\<rparr>))))"

text \<open>
  The \<^verbatim>\<open>while current:\<close> loop of \<^verbatim>\<open>get_patient_name_by_id\<close> follows \<^verbatim>\<open>next\<close> references
  and need not end on an arbitrary store; the outer \<open>None\<close> of \<open>scan_queue\<close> stands for a
  loop that never returns, \<open>Some None\<close> for a loop that ended without a match.
\<close>

partial_function (option) scan_queue ::
  "PatientNode list \<Rightarrow> ref option \<Rightarrow> string \<Rightarrow> string option option" where
  [code]: "scan_queue st current pid =
    (case current of
       None \<Rightarrow> Some None
     | Some c \<Rightarrow>
         if patient_id (st ! c) = pid then Some (Some (name (st ! c)))
         else scan_queue st (nxt (st ! c)) pid)"

definition get_patient_name_by_id :: "HospitalManagementSystem \<Rightarrow> string \<Rightarrow> string option" where
  "get_patient_name_by_id s pid =
    map_option (\<lambda>found. case found of Some nm \<Rightarrow> nm | None \<Rightarrow> ''Patient '' @ pid)
      (scan_queue (store (patient_queue s)) (head (patient_queue s)) pid)"

record Visit =
  registration_time :: string
  visit_condition :: string
  visit_status :: string
  visit_assigned_doctor :: "string option"
  treatment_history :: "TreatmentStep list"

record PatientRecord =
  record_id :: string
  record_name :: string
  full_visits :: "Visit list"

text \<open>\<^verbatim>\<open>get_patient_record\<close>: outer \<open>None\<close> when the name scan never returns, \<open>Some None\<close>
  for the \<^verbatim>\<open>None\<close> result (no record under the key).\<close>

definition get_patient_record ::
  "HospitalManagementSystem \<Rightarrow> string \<Rightarrow> PatientRecord option option" where
  "get_patient_record s pid =
    (case patient_records s pid of
       None \<Rightarrow> Some None
     | Some record \<Rightarrow>
         map_option
           (\<lambda>nm. Some \<lparr>record_id = pid,
                        record_name = nm,
                        full_visits =
                          [\<lparr>registration_time =
                              (if get_history record \<noteq> [] then timestamp (get_history record ! 0)
                               else ''N/A''),
                            visit_condition = initial_condition record,
                            visit_status = status record,
                            visit_assigned_doctor = assigned_doctor record,
                            treatment_history = get_history record\<rparr>]\<rparr>)
           (get_patient_name_by_id s pid))"

text \<open>Sequences of the state-changing methods.\<close>

datatype facade_op =
    Register string string string
  | TreatNext string
  | AddStep string "string option"
  | Undo
  | Assign "string option"

fun step :: "HospitalManagementSystem \<Rightarrow> facade_op \<Rightarrow> HospitalManagementSystem" where
  "step s (Register uuid nm cond) = snd (register_patient s uuid nm cond)"
| "step s (TreatNext now) = snd (treat_next_patient s now)"
| "step s (AddStep now d) = snd (add_treatment_step s now d)"
| "step s Undo = snd (undo_last_treatment s)"
| "step s (Assign d) = snd (assign_doctor_to_current s d)"

fun run :: "HospitalManagementSystem \<Rightarrow> facade_op list \<Rightarrow> HospitalManagementSystem" where
  "run s [] = s"
| "run s (op # ops) = run (step s op) ops"



text \<open>Every identity in the queue and the current identity are keys of
  \<^verbatim>\<open>patient_records\<close>.\<close>

definition keys_ok :: "HospitalManagementSystem \<Rightarrow> ref list \<Rightarrow> bool" where
  "keys_ok s as =
    (queue_inv (patient_queue s) as \<and>
     list_all (\<lambda>a. patient_records s (patient_id (store (patient_queue s) ! a)) \<noteq> None) as \<and>
     (case current_treatment_id s of Some cur \<Rightarrow> patient_records s cur \<noteq> None | None \<Rightarrow> True))"

section \<open>The request handlers\<close>

text \<open>
  A handler returns the JSON body \<^verbatim>\<open>{"status": ..., "message": ...}\<close> with the HTTP status
  code (200 unless the handler gives one). The argument of a handler is the field it reads
  with \<^verbatim>\<open>request.json.get\<close>: \<open>None\<close> when the JSON object has no such field. Every handler
  wraps its body in \<^verbatim>\<open>try ... except Exception\<close>.
\<close>

record Response =
  http_code :: nat
  status_field :: string
  message :: string

fun str_error :: "py_error \<Rightarrow> string" where
  "str_error (KeyError k) = [CHR 0x27] @ k @ [CHR 0x27]"

fun format_opt :: "string option \<Rightarrow> string" where
  "format_opt None = ''None''"
| "format_opt (Some s) = s"

definition api_register_patient ::
  "HospitalManagementSystem \<Rightarrow> string \<Rightarrow> string option \<Rightarrow> string option \<Rightarrow>
   Response \<times> HospitalManagementSystem" where
  "api_register_patient s uuid nm cond =
    (if \<not> truthy nm \<or> \<not> truthy cond
     then (\<lparr>http_code = 400, status_field = ''error'', message = ''Missing name or condition.''\<rparr>, s)
     else (\<lparr>http_code = 200, status_field = ''success'',
            message = ''Patient '' @ format_opt nm @ '' registered to Triage queue.''\<rparr>,
           snd (register_patient s uuid (format_opt nm) (format_opt cond))))"

definition api_undo_treatment :: "HospitalManagementSystem \<Rightarrow> Response \<times> HospitalManagementSystem" where
  "api_undo_treatment s =
    (if \<not> truthy (current_treatment_id s)
     then (\<lparr>http_code = 400, status_field = ''error'',
            message = ''No patient currently selected for treatment.''\<rparr>, s)
     else (case undo_last_treatment s of
             (Inr undone, s') \<Rightarrow>
               (if undone
                then (\<lparr>http_code = 200, status_field = ''info'',
                       message = ''Last treatment step successfully undone.''\<rparr>, s')
                else (\<lparr>http_code = 200, status_field = ''info'',
                       message = ''Treatment history is empty. Nothing to undo.''\<rparr>, s'))
           | (Inl e, s') \<Rightarrow>
               (\<lparr>http_code = 200, status_field = ''error'',
                 message = ''Undo failed: '' @ str_error e\<rparr>, s')))"

definition api_assign_doctor ::
  "HospitalManagementSystem \<Rightarrow> string option \<Rightarrow> Response \<times> HospitalManagementSystem" where
  "api_assign_doctor s doctor_name =
    (if \<not> truthy (current_treatment_id s)
     then (\<lparr>http_code = 400, status_field = ''error'',
            message = ''Please start treating a patient first.''\<rparr>, s)
     else (case assign_doctor_to_current s doctor_name of
             (Inr assigned, s') \<Rightarrow>
               (if assigned
                then (\<lparr>http_code = 200, status_field = ''success'',
                       message = ''Doctor '' @ format_opt doctor_name @ '' assigned to current patient.''\<rparr>, s')
                else (\<lparr>http_code = 500, status_field = ''error'',
                       message = ''Failed to assign doctor.''\<rparr>, s'))
           | (Inl e, s') \<Rightarrow>
               (\<lparr>http_code = 200, status_field = ''error'',
                 message = ''Assignment failed: '' @ str_error e\<rparr>, s')))"

section \<open>Auxiliary notions and example states\<close>



text \<open>The system as constructed, with two identities as \<^verbatim>\<open>uuid4\<close> prints them.\<close>

definition demo_system :: HospitalManagementSystem where
  "demo_system =
    HospitalManagementSystem_init ''City General Hospital''
      ''0a1b2c3d-1111-4111-8111-111111111111'' ''4e5f6a7b-2222-4222-9222-222222222222''"

section \<open>Properties of the patient queue\<close>

lemma chain_bound: "chain st r as \<Longrightarrow> a \<in> set as \<Longrightarrow> a < length st"
  by (induction as arbitrary: r) auto

lemma chain_store_append: "chain st r as \<Longrightarrow> chain (st @ [n]) r as"
  by (induction as arbitrary: r) (auto simp: nth_append)

lemma chain_update_other:
  "chain st r as \<Longrightarrow> t \<notin> set as \<Longrightarrow> chain (st[t := v]) r as"
  by (induction as arbitrary: r) auto

lemma chain_link_last:
  "chain st r as \<Longrightarrow> as \<noteq> [] \<Longrightarrow> distinct as \<Longrightarrow> b < length st \<Longrightarrow> b \<notin> set as \<Longrightarrow>
   nxt (st ! b) = None \<Longrightarrow>
   chain (st[last as := (st ! last as)\<lparr>nxt := Some b\<rparr>]) r (as @ [b])"
proof (induction as arbitrary: r)
  case Nil
  then show ?case by simp
next
  case (Cons a as)
  show ?case
  proof (cases "as = []")
    case True
    with Cons.prems show ?thesis by auto
  next
    case False
    with Cons.prems have "last (a # as) = last as" "a \<noteq> last as"
      by auto
    with Cons False show ?thesis by auto
  qed
qed

lemma enqueue_fst: "fst (enqueue q uuid nm cond) = length (store q)"
  by (simp add: enqueue_def Let_def)

lemma enqueue_inv:
  assumes "queue_inv q as"
  shows "queue_inv (snd (enqueue q uuid nm cond)) (as @ [length (store q)])"
proof (cases "as = []")
  case True
  with assms show ?thesis
    by (simp add: queue_inv_def enqueue_def Let_def is_empty_def)
next
  case False
  let ?n = "\<lparr>patient_id = take 8 uuid, name = nm, condition = cond, nxt = None\<rparr>"
  let ?st = "store q @ [?n]"
  from assms have ch: "chain (store q) (head q) as" and d: "distinct as"
    and t: "tail q = Some (last as)" and sz: "size_q q = int (length as)"
    using False by (simp_all add: queue_inv_def)
  from ch False obtain h where hd: "head q = Some h" by (cases as) auto
  have fresh: "length (store q) \<notin> set as"
    using chain_bound [OF ch] by auto
  have "chain (?st[last as := (?st ! last as)\<lparr>nxt := Some (length (store q))\<rparr>]) (head q)
          (as @ [length (store q)])"
    using chain_store_append [OF ch] False d fresh
    by (intro chain_link_last) auto
  with hd t sz d fresh False show ?thesis
    by (simp add: queue_inv_def enqueue_def Let_def is_empty_def)
qed

lemma enqueue_length: "length (store (snd (enqueue q uuid nm cond))) = Suc (length (store q))"
  by (simp add: enqueue_def Let_def is_empty_def split: option.splits)

lemma nth_update_nxt:
  "patient_id (st[t := (st ! t)\<lparr>nxt := x\<rparr>] ! a) = patient_id (st ! a) \<and>
   name (st[t := (st ! t)\<lparr>nxt := x\<rparr>] ! a) = name (st ! a) \<and>
   condition (st[t := (st ! t)\<lparr>nxt := x\<rparr>] ! a) = condition (st ! a)"
  by (cases "t < length st") (simp_all add: nth_list_update not_less list_update_beyond)

lemma enqueue_entry_new:
  "entry (snd (enqueue q uuid nm cond)) (length (store q)) = (take 8 uuid, nm, cond)"
  by (simp add: enqueue_def Let_def is_empty_def entry_def nth_update_nxt split: option.splits)

lemma enqueue_entry_old:
  "a < length (store q) \<Longrightarrow> entry (snd (enqueue q uuid nm cond)) a = entry q a"
  by (simp add: enqueue_def Let_def is_empty_def entry_def nth_update_nxt split: option.splits)
     (simp add: nth_append)

lemma dequeue_empty: "queue_inv q [] \<Longrightarrow> dequeue q = (None, q)"
  by (simp add: queue_inv_def dequeue_def is_empty_def)

lemma dequeue_fst: "queue_inv q (a # as) \<Longrightarrow> fst (dequeue q) = Some a"
  by (simp add: queue_inv_def dequeue_def is_empty_def Let_def)

lemma dequeue_store: "store (snd (dequeue q)) = store q"
  by (simp add: dequeue_def Let_def split: option.splits)

lemma dequeue_inv: "queue_inv q (a # as) \<Longrightarrow> queue_inv (snd (dequeue q)) as"
  by (cases as) (auto simp: queue_inv_def dequeue_def is_empty_def Let_def)

lemma dequeue_entry: "entry (snd (dequeue q)) a = entry q a"
  by (simp add: entry_def dequeue_store)


lemma enqueue_all_inv:
  "queue_inv q as \<Longrightarrow>
   queue_inv (snd (enqueue_all q es)) (as @ fst (enqueue_all q es)) \<and>
   map (entry (snd (enqueue_all q es))) (fst (enqueue_all q es)) =
     map (\<lambda>(uuid, nm, cond). (take 8 uuid, nm, cond)) es \<and>
   length (store q) \<le> length (store (snd (enqueue_all q es))) \<and>
   (\<forall>a < length (store q). entry (snd (enqueue_all q es)) a = entry q a)"
proof (induction es arbitrary: q as)
  case Nil
  then show ?case by simp
next
  case (Cons e es)
  obtain uuid nm cond where e: "e = (uuid, nm, cond)" by (cases e)
  let ?q1 = "snd (enqueue q uuid nm cond)"
  have inv1: "queue_inv ?q1 (as @ [length (store q)])"
    using Cons.prems by (rule enqueue_inv)
  note ih = Cons.IH [OF inv1]
  have len: "length (store ?q1) = Suc (length (store q))" by (rule enqueue_length)
  have new: "entry (snd (enqueue_all ?q1 es)) (length (store q)) = (take 8 uuid, nm, cond)"
    using ih len by (simp add: enqueue_entry_new)
  have old: "\<forall>a < length (store q). entry (snd (enqueue_all ?q1 es)) a = entry q a"
    using ih len by (simp add: enqueue_entry_old)
  show ?case
    using ih new old len
    by (simp add: e split_beta Let_def enqueue_fst)
qed

lemma dequeue_n_inv:
  "queue_inv q (as @ bs) \<Longrightarrow>
   fst (dequeue_n (length as) q) = map Some as \<and>
   queue_inv (snd (dequeue_n (length as) q)) bs \<and>
   store (snd (dequeue_n (length as) q)) = store q"
proof (induction as arbitrary: q)
  case Nil
  then show ?case by simp
next
  case (Cons a as)
  then have "queue_inv q (a # (as @ bs))" by simp
  then have "fst (dequeue q) = Some a" "queue_inv (snd (dequeue q)) (as @ bs)"
    by (rule dequeue_fst, rule dequeue_inv)
  with Cons.IH [of "snd (dequeue q)"] show ?case
    by (simp add: split_beta Let_def dequeue_store)
qed

lemma run_ops_inv:
  "queue_inv q as \<Longrightarrow>
   \<exists>bs. queue_inv (snd (run_ops q ops)) bs \<and>
        as @ enqueued_refs (fst (run_ops q ops)) = dequeued_refs (fst (run_ops q ops)) @ bs"
proof (induction ops arbitrary: q as)
  case Nil
  then show ?case by auto
next
  case (Cons op ops)
  show ?case
  proof (cases op)
    case (Enqueue uuid nm cond)
    have "queue_inv (snd (enqueue q uuid nm cond)) (as @ [length (store q)])"
      using Cons.prems by (rule enqueue_inv)
    from Cons.IH [OF this] show ?thesis
      by (simp add: Enqueue split_beta Let_def enqueue_fst)
  next
    case Dequeue
    show ?thesis
    proof (cases as)
      case Nil
      with Cons.prems have "dequeue q = (None, q)" by (simp add: dequeue_empty)
      with Cons.IH [OF Cons.prems] Nil show ?thesis
        by (simp add: Dequeue split_beta Let_def)
    next
      case (Cons a as')
      with Cons.prems have "fst (dequeue q) = Some a" "queue_inv (snd (dequeue q)) as'"
        by (simp_all add: dequeue_fst dequeue_inv)
      with Cons.IH [of "snd (dequeue q)" as'] Cons show ?thesis
        by (simp add: Dequeue split_beta Let_def)
    qed
  qed
qed

text \<open>
  Claim C3. Starting from an empty queue, dequeuing after a sequence of enqueues returns the
  very nodes the enqueues created, in arrival order, each carrying the identity, name and
  condition it was enqueued with, and then the queue is empty again. After any interleaving
  of enqueues and dequeues from an empty queue, the \<^verbatim>\<open>size\<close> field is the number of
  enqueues minus the number of successful dequeues, and the nodes dequeued so far are the
  first nodes enqueued, in order.
\<close>

theorem queue_fifo_and_size:
  assumes "queue_inv q0 []"
  shows "(let (rs, q1) = enqueue_all q0 es; (ds, q2) = dequeue_n (length es) q1
          in ds = map Some rs \<and>
             map (entry q2) rs = map (\<lambda>(uuid, nm, cond). (take 8 uuid, nm, cond)) es \<and>
             dequeue q2 = (None, q2)) \<and>
         (let (tr, q) = run_ops q0 ops
          in size_q q = int (length (enqueued_refs tr)) - int (length (dequeued_refs tr)) \<and>
             dequeued_refs tr = take (length (dequeued_refs tr)) (enqueued_refs tr))"
proof -
  let ?rs = "fst (enqueue_all q0 es)" and ?q1 = "snd (enqueue_all q0 es)"
  from enqueue_all_inv [OF assms, of es]
  have inv1: "queue_inv ?q1 ?rs"
    and ent: "map (entry ?q1) ?rs = map (\<lambda>(uuid, nm, cond). (take 8 uuid, nm, cond)) es"
    by simp_all
  from ent have len: "length ?rs = length es"
    by (metis length_map)
  from inv1 have "queue_inv ?q1 (?rs @ [])" by simp
  from dequeue_n_inv [OF this] len
  have d: "fst (dequeue_n (length es) ?q1) = map Some ?rs"
    and inv2: "queue_inv (snd (dequeue_n (length es) ?q1)) []"
    and st: "store (snd (dequeue_n (length es) ?q1)) = store ?q1"
    by simp_all
  have e2: "entry (snd (dequeue_n (length es) ?q1)) = entry ?q1"
    by (rule ext) (simp add: entry_def st)
  have fifo: "(let (rs, q1) = enqueue_all q0 es; (ds, q2) = dequeue_n (length es) q1
          in ds = map Some rs \<and>
             map (entry q2) rs = map (\<lambda>(uuid, nm, cond). (take 8 uuid, nm, cond)) es \<and>
             dequeue q2 = (None, q2))"
    using d ent e2 dequeue_empty [OF inv2] by (simp add: split_beta Let_def)
  from run_ops_inv [OF assms, of ops] obtain bs where
    bs: "queue_inv (snd (run_ops q0 ops)) bs"
        "enqueued_refs (fst (run_ops q0 ops)) = dequeued_refs (fst (run_ops q0 ops)) @ bs"
    by auto
  from bs(1) have "size_q (snd (run_ops q0 ops)) = int (length bs)"
    by (simp add: queue_inv_def)
  moreover from bs(2) have
    "length (enqueued_refs (fst (run_ops q0 ops))) =
     length (dequeued_refs (fst (run_ops q0 ops))) + length bs"
    by (metis length_append)
  moreover from bs(2) have
    "dequeued_refs (fst (run_ops q0 ops)) =
     take (length (dequeued_refs (fst (run_ops q0 ops)))) (enqueued_refs (fst (run_ops q0 ops)))"
    by simp
  ultimately have sz: "(let (tr, q) = run_ops q0 ops
          in size_q q = int (length (enqueued_refs tr)) - int (length (dequeued_refs tr)) \<and>
             dequeued_refs tr = take (length (dequeued_refs tr)) (enqueued_refs tr))"
    by (simp add: split_beta Let_def)
  from fifo sz show ?thesis by blast
qed

theorem queue_fifo_and_size_witness:
  "queue_inv PatientQueue_init [] \<and>
   (let (rs, q1) = enqueue_all PatientQueue_init
                     [(''0a1b2c3d-1111-4111-8111-111111111111'', ''Alice Johnson'', ''Severe fever''),
                      (''4e5f6a7b-2222-4222-9222-222222222222'', ''Bob Davis'', ''Broken arm'')];
        (ds, q2) = dequeue_n 2 q1
    in ds = [Some 0, Some 1] \<and>
       map (entry q2) rs = [(''0a1b2c3d'', ''Alice Johnson'', ''Severe fever''),
                            (''4e5f6a7b'', ''Bob Davis'', ''Broken arm'')])"
proof -
  have h: "queue_inv PatientQueue_init []"
    by (simp add: queue_inv_def PatientQueue_init_def)
  from queue_fifo_and_size [OF h,
      of "[(''0a1b2c3d-1111-4111-8111-111111111111'', ''Alice Johnson'', ''Severe fever''),
           (''4e5f6a7b-2222-4222-9222-222222222222'', ''Bob Davis'', ''Broken arm'')]" "[]"]
  show ?thesis using h
    by (simp add: split_beta Let_def enqueue_def dequeue_def entry_def PatientQueue_init_def
        is_empty_def numeral_2_eq_2)
qed

section \<open>Properties of the treatment stack\<close>

lemma pop_push: "pop (push s now d) = (Some \<lparr>timestamp = now, detail = d\<rparr>, s)"
  by (simp add: pop_def push_def)

lemma push_all_snoc: "push_all s (ds @ [(now, d)]) = push (push_all s ds) now d"
  by (induction s ds rule: push_all.induct) simp_all

lemma pop_n_push_all:
  "pop_n (length ds) (push_all s ds) =
     (map Some (rev (map (\<lambda>(now, d). \<lparr>timestamp = now, detail = d\<rparr>) ds)), s)"
proof (induction ds rule: rev_induct)
  case Nil
  show ?case by simp
next
  case (snoc x ds)
  obtain now d where x: "x = (now, d)" by (cases x)
  show ?case
    using snoc.IH by (simp add: x push_all_snoc pop_push)
qed

text \<open>
  Claim C4. Popping as often as was pushed returns the pushed entries in exactly the reverse
  order of pushing and restores the stack; in particular pushing A and then B and popping
  twice yields B's entry and then A's entry.
\<close>

theorem stack_pop_reverses_push:
  "pop_n (length ds) (push_all s ds) =
     (map Some (rev (map (\<lambda>(now, d). \<lparr>timestamp = now, detail = d\<rparr>) ds)), s) \<and>
   pop (push (push s ta a) tb b) = (Some \<lparr>timestamp = tb, detail = b\<rparr>, push s ta a) \<and>
   pop (push s ta a) = (Some \<lparr>timestamp = ta, detail = a\<rparr>, s)"
  by (simp add: pop_n_push_all pop_push)


section \<open>Properties of the specialization tree\<close>













section \<open>Invariants of the hospital management system\<close>

lemma chain_unique: "chain st r as \<Longrightarrow> chain st r bs \<Longrightarrow> as = bs"
proof (induction as arbitrary: r bs)
  case Nil
  then show ?case by (cases bs) auto
next
  case (Cons a as)
  then show ?case by (cases bs) auto
qed

lemma queue_inv_unique: "queue_inv q as \<Longrightarrow> queue_inv q bs \<Longrightarrow> as = bs"
  by (auto simp: queue_inv_def intro: chain_unique)

lemma queue_inv_bound: "queue_inv q as \<Longrightarrow> a \<in> set as \<Longrightarrow> a < length (store q)"
  by (auto simp: queue_inv_def dest: chain_bound)

lemma enqueue_patient_id_old:
  "a < length (store q) \<Longrightarrow>
   patient_id (store (snd (enqueue q uuid nm cond)) ! a) = patient_id (store q ! a)"
  using enqueue_entry_old [of a q uuid nm cond] by (simp add: entry_def)

lemma enqueue_patient_id_new:
  "patient_id (store (snd (enqueue q uuid nm cond)) ! length (store q)) = take 8 uuid"
  using enqueue_entry_new [of q uuid nm cond] by (simp add: entry_def)

lemma keys_ok_init: "keys_ok (HospitalManagementSystem_init hospital uuid1 uuid2) [0, 1]"
  by (simp add: keys_ok_def HospitalManagementSystem_init_def enqueue_def PatientQueue_init_def
      is_empty_def Let_def queue_inv_def)

lemma register_patient_result:
  "register_patient s uuid nm cond =
    (take 8 uuid,
     s\<lparr>patient_queue := snd (enqueue (patient_queue s) uuid nm cond),
       patient_records := (patient_records s)(take 8 uuid \<mapsto>
         TreatmentStack_init\<lparr>stack_patient_id := Some (take 8 uuid), initial_condition := cond\<rparr>)\<rparr>)"
  using enqueue_patient_id_new [of "patient_queue s" uuid nm cond]
  by (simp add: register_patient_def split_beta Let_def enqueue_fst)

lemma keys_ok_register:
  assumes "keys_ok s as"
  shows "keys_ok (snd (register_patient s uuid nm cond)) (as @ [length (store (patient_queue s))])"
proof -
  let ?q = "patient_queue s" and ?q' = "snd (enqueue (patient_queue s) uuid nm cond)"
  from assms have inv: "queue_inv ?q as"
    and all: "list_all (\<lambda>a. patient_records s (patient_id (store ?q ! a)) \<noteq> None) as"
    and cur: "case current_treatment_id s of Some cur \<Rightarrow> patient_records s cur \<noteq> None | None \<Rightarrow> True"
    by (simp_all add: keys_ok_def)
  have inv': "queue_inv ?q' (as @ [length (store ?q)])"
    using inv by (rule enqueue_inv)
  have old: "patient_id (store ?q' ! a) = patient_id (store ?q ! a)" if "a \<in> set as" for a
    using queue_inv_bound [OF inv that] by (rule enqueue_patient_id_old)
  show ?thesis
    using inv' all cur old
    by (auto simp: keys_ok_def register_patient_result enqueue_patient_id_new list_all_iff
        split: option.splits)
qed

lemma treat_next_patient_empty:
  "is_empty (patient_queue s) \<Longrightarrow>
   treat_next_patient s now =
     (Inr None, s\<lparr>current_treatment_id := None, current_patient_name := None,
                  current_patient_condition := None, current_patient_doctor := None\<rparr>)"
  by (simp add: treat_next_patient_def dequeue_def)

lemma treat_next_patient_result:
  assumes "queue_inv (patient_queue s) (a # as)"
    and "patient_records s (patient_id (store (patient_queue s) ! a)) = Some rcd"
  shows "treat_next_patient s now =
    (Inr (Some (patient_id (store (patient_queue s) ! a))),
     s\<lparr>patient_queue := snd (dequeue (patient_queue s)),
       current_treatment_id := Some (patient_id (store (patient_queue s) ! a)),
       current_patient_name := Some (name (store (patient_queue s) ! a)),
       current_patient_condition := Some (condition (store (patient_queue s) ! a)),
       current_patient_doctor := None,
       patient_records := (patient_records s)(patient_id (store (patient_queue s) ! a) \<mapsto>
          push (rcd\<lparr>status := ''In Treatment''\<rparr>) now
            (Some (''Initial Triage for '' @ condition (store (patient_queue s) ! a) @ ''.'')))\<rparr>)"
  using dequeue_fst [OF assms(1)] assms(2)
  by (simp add: treat_next_patient_def split_beta Let_def dequeue_store)

lemma keys_ok_treat_next:
  assumes "keys_ok s as"
  shows "keys_ok (snd (treat_next_patient s now)) (tl as) \<and> \<not> isl (fst (treat_next_patient s now))"
proof (cases as)
  case Nil
  with assms have "is_empty (patient_queue s)"
    by (simp add: keys_ok_def queue_inv_def is_empty_def)
  with assms Nil show ?thesis
    by (simp add: treat_next_patient_empty keys_ok_def)
next
  case (Cons a as')
  from assms Cons have inv: "queue_inv (patient_queue s) (a # as')"
    and all: "list_all (\<lambda>a. patient_records s (patient_id (store (patient_queue s) ! a)) \<noteq> None) as'"
    by (simp_all add: keys_ok_def)
  from assms Cons obtain rcd where
    r: "patient_records s (patient_id (store (patient_queue s) ! a)) = Some rcd"
    by (auto simp: keys_ok_def)
  show ?thesis
    using dequeue_inv [OF inv] all
    by (auto simp: treat_next_patient_result [OF inv r] keys_ok_def Cons dequeue_store list_all_iff)
qed

lemma keys_ok_add_treatment_step:
  "keys_ok s as \<Longrightarrow>
   keys_ok (snd (add_treatment_step s now d)) as \<and> \<not> isl (fst (add_treatment_step s now d))"
  by (auto simp: keys_ok_def add_treatment_step_def list_all_iff split: option.splits)

lemma keys_ok_undo_last_treatment:
  "keys_ok s as \<Longrightarrow>
   keys_ok (snd (undo_last_treatment s)) as \<and> \<not> isl (fst (undo_last_treatment s))"
  by (auto simp: keys_ok_def undo_last_treatment_def split_beta list_all_iff split: option.splits)

lemma keys_ok_assign_doctor_to_current:
  "keys_ok s as \<Longrightarrow>
   keys_ok (snd (assign_doctor_to_current s doc)) as \<and>
   \<not> isl (fst (assign_doctor_to_current s doc))"
  by (auto simp: keys_ok_def assign_doctor_to_current_def list_all_iff split: option.splits)

lemma keys_ok_step: "\<exists>as. keys_ok s as \<Longrightarrow> \<exists>as. keys_ok (step s op) as"
proof (cases op)
  case (Register uuid nm cond)
  assume "\<exists>as. keys_ok s as"
  then show ?thesis using keys_ok_register Register by (metis step.simps(1))
next
  case (TreatNext now)
  assume "\<exists>as. keys_ok s as"
  then show ?thesis using keys_ok_treat_next TreatNext by (metis step.simps(2))
next
  case (AddStep now d)
  assume "\<exists>as. keys_ok s as"
  then show ?thesis using keys_ok_add_treatment_step AddStep by (metis step.simps(3))
next
  case Undo
  assume "\<exists>as. keys_ok s as"
  then show ?thesis using keys_ok_undo_last_treatment Undo by (metis step.simps(4))
next
  case (Assign doc)
  assume "\<exists>as. keys_ok s as"
  then show ?thesis using keys_ok_assign_doctor_to_current Assign by (metis step.simps(5))
qed

lemma keys_ok_run: "\<exists>as. keys_ok s as \<Longrightarrow> \<exists>as. keys_ok (run s ops) as"
  by (induction ops arbitrary: s) (simp_all add: keys_ok_step)

lemma keys_ok_reachable: "\<exists>as. keys_ok (run (HospitalManagementSystem_init hospital uuid1 uuid2) ops) as"
  using keys_ok_init by (intro keys_ok_run) blast

section \<open>The claims about the hospital management system\<close>

text \<open>
  Claim C10. In every state reached from construction by any sequence of the state-changing
  methods, the queue is a well-formed linked list, every identity held in it is a key of
  \<^verbatim>\<open>patient_records\<close>, and so is the current identity when one is set (\<open>keys_ok\<close>); hence
  none of \<^verbatim>\<open>treat_next_patient\<close>, \<^verbatim>\<open>add_treatment_step\<close>, \<^verbatim>\<open>undo_last_treatment\<close> and
  \<^verbatim>\<open>assign_doctor_to_current\<close> raises \<^verbatim>\<open>KeyError\<close> there.
\<close>

theorem records_cover_queue_and_current:
  "(let s = run (HospitalManagementSystem_init hospital uuid1 uuid2) ops
    in (\<exists>as. keys_ok s as) \<and>
       \<not> isl (fst (treat_next_patient s now)) \<and>
       \<not> isl (fst (add_treatment_step s now d)) \<and>
       \<not> isl (fst (undo_last_treatment s)) \<and>
       \<not> isl (fst (assign_doctor_to_current s doc)))"
proof -
  let ?s = "run (HospitalManagementSystem_init hospital uuid1 uuid2) ops"
  from keys_ok_reachable obtain as where "keys_ok ?s as" by blast
  then show ?thesis
    using keys_ok_treat_next keys_ok_add_treatment_step keys_ok_undo_last_treatment
      keys_ok_assign_doctor_to_current
    unfolding Let_def by blast
qed

lemmas eval_defs =
  demo_system_def HospitalManagementSystem_init_def enqueue_def dequeue_def PatientQueue_init_def
  is_empty_def Let_def split_beta register_patient_def treat_next_patient_def
  add_treatment_step_def undo_last_treatment_def assign_doctor_to_current_def
  push_def pop_def TreatmentStack_init_def

theorem records_cover_queue_and_current_witness:
  "keys_ok (run (HospitalManagementSystem_init ''City General Hospital''
      ''0a1b2c3d-1111-4111-8111-111111111111'' ''4e5f6a7b-2222-4222-9222-222222222222'')
      [TreatNext ''2026-01-01 10:00:00'']) [1] \<and>
   \<not> isl (fst (treat_next_patient (run (HospitalManagementSystem_init ''City General Hospital''
      ''0a1b2c3d-1111-4111-8111-111111111111'' ''4e5f6a7b-2222-4222-9222-222222222222'')
      [TreatNext ''2026-01-01 10:00:00'']) ''2026-01-01 10:30:00'')) \<and>
   \<not> isl (fst (undo_last_treatment (run (HospitalManagementSystem_init ''City General Hospital''
      ''0a1b2c3d-1111-4111-8111-111111111111'' ''4e5f6a7b-2222-4222-9222-222222222222'')
      [TreatNext ''2026-01-01 10:00:00''])))"
proof -
  have k: "keys_ok (run (HospitalManagementSystem_init ''City General Hospital''
      ''0a1b2c3d-1111-4111-8111-111111111111'' ''4e5f6a7b-2222-4222-9222-222222222222'')
      [TreatNext ''2026-01-01 10:00:00'']) [1]"
    by (simp add: eval_defs keys_ok_def queue_inv_def)
  from records_cover_queue_and_current [where hospital = "''City General Hospital''"
      and ?uuid1.0 = "''0a1b2c3d-1111-4111-8111-111111111111''"
      and ?uuid2.0 = "''4e5f6a7b-2222-4222-9222-222222222222''"
      and ops = "[TreatNext ''2026-01-01 10:00:00'']" and now = "''2026-01-01 10:30:00''"]
  show ?thesis
    using k unfolding Let_def by blast
qed

lemma demo_queue:
  "patient_queue demo_system =
    \<lparr>store = [\<lparr>patient_id = ''0a1b2c3d'', name = ''Alice Johnson'', condition = ''Severe fever'',
                nxt = Some 1\<rparr>,
              \<lparr>patient_id = ''4e5f6a7b'', name = ''Bob Davis'', condition = ''Broken arm'',
                nxt = None\<rparr>],
      head = Some 0, tail = Some 1, size_q = 2\<rparr>"
  by (simp add: eval_defs)

text \<open>
  Claim C1. In every reachable state whose queue holds P1 and then P2 (and possibly more
  patients after them), two successive calls of \<^verbatim>\<open>treat_next_patient\<close> return P1's identity
  and then P2's identity, and right after each call the stack stored under the returned
  identity has status \<^verbatim>\<open>"In Treatment"\<close> and a history of at least one entry.
\<close>

theorem treat_next_twice:
  assumes "s = run (HospitalManagementSystem_init hospital uuid1 uuid2) ops"
    and "queue_inv (patient_queue s) (p1 # p2 # rest)"
  shows "(let id1 = patient_id (store (patient_queue s) ! p1);
              id2 = patient_id (store (patient_queue s) ! p2);
              (r1, s1) = treat_next_patient s now1;
              (r2, s2) = treat_next_patient s1 now2
          in r1 = Inr (Some id1) \<and>
             (\<exists>ledger. patient_records s1 id1 = Some ledger \<and> status ledger = ''In Treatment'' \<and>
                       1 \<le> length (items ledger)) \<and>
             r2 = Inr (Some id2) \<and>
             (\<exists>ledger. patient_records s2 id2 = Some ledger \<and> status ledger = ''In Treatment'' \<and>
                       1 \<le> length (items ledger)))"
proof -
  let ?q = "patient_queue s"
  let ?s1 = "snd (treat_next_patient s now1)"
  from keys_ok_reachable assms(1) obtain as where "keys_ok s as" by blast
  moreover from this have "queue_inv ?q as" by (simp add: keys_ok_def)
  with assms(2) have "as = p1 # p2 # rest" by (rule queue_inv_unique [symmetric])
  ultimately have k: "keys_ok s (p1 # p2 # rest)" by simp
  then obtain l1 where l1: "patient_records s (patient_id (store ?q ! p1)) = Some l1"
    by (auto simp: keys_ok_def)
  note t1 = treat_next_patient_result [OF assms(2) l1, of now1]
  from keys_ok_treat_next [OF k, of now1] have k1: "keys_ok ?s1 (p2 # rest)" by simp
  then have inv1: "queue_inv (patient_queue ?s1) (p2 # rest)" by (simp add: keys_ok_def)
  have st: "store (patient_queue ?s1) = store ?q"
    by (simp add: t1 dequeue_store)
  from k1 obtain l2 where l2: "patient_records ?s1 (patient_id (store (patient_queue ?s1) ! p2)) = Some l2"
    by (auto simp: keys_ok_def)
  note t2 = treat_next_patient_result [OF inv1 l2, of now2]
  have a: "fst (treat_next_patient s now1) = Inr (Some (patient_id (store ?q ! p1)))"
    by (simp add: t1)
  have b: "\<exists>ledger. patient_records ?s1 (patient_id (store ?q ! p1)) = Some ledger \<and>
      status ledger = ''In Treatment'' \<and> 1 \<le> length (items ledger)"
    by (simp add: t1 push_def)
  have c: "fst (treat_next_patient ?s1 now2) = Inr (Some (patient_id (store ?q ! p2)))"
    by (simp add: t2 st)
  have d: "\<exists>ledger. patient_records (snd (treat_next_patient ?s1 now2)) (patient_id (store ?q ! p2)) =
      Some ledger \<and> status ledger = ''In Treatment'' \<and> 1 \<le> length (items ledger)"
    by (simp add: t2 st push_def)
  from a b c d show ?thesis
    by (simp add: split_beta Let_def)
qed

theorem treat_next_twice_witness:
  "demo_system = run (HospitalManagementSystem_init ''City General Hospital''
      ''0a1b2c3d-1111-4111-8111-111111111111'' ''4e5f6a7b-2222-4222-9222-222222222222'') [] \<and>
   queue_inv (patient_queue demo_system) [0, 1] \<and>
   fst (treat_next_patient demo_system ''2026-01-01 10:00:00'') = Inr (Some ''0a1b2c3d'') \<and>
   fst (treat_next_patient (snd (treat_next_patient demo_system ''2026-01-01 10:00:00''))
          ''2026-01-01 10:30:00'') = Inr (Some ''4e5f6a7b'')"
proof -
  have h1: "demo_system = run (HospitalManagementSystem_init ''City General Hospital''
      ''0a1b2c3d-1111-4111-8111-111111111111'' ''4e5f6a7b-2222-4222-9222-222222222222'') []"
    by (simp add: demo_system_def)
  have h2: "queue_inv (patient_queue demo_system) [0, 1]"
    by (simp add: demo_queue queue_inv_def)
  from treat_next_twice [OF h1 h2, of "''2026-01-01 10:00:00''" "''2026-01-01 10:30:00''"]
  show ?thesis
    using h1 h2 by (simp add: split_beta Let_def demo_queue)
qed

text \<open>
  Claim C9. On an empty queue \<^verbatim>\<open>treat_next_patient\<close> returns \<^verbatim>\<open>None\<close> and changes nothing
  but the current-treatment slot, which it clears: the queue, the patient records, the
  specialization tree and the hospital name are the same as before.
\<close>

theorem treat_next_empty_queue:
  "is_empty (patient_queue s) \<Longrightarrow>
   (let (r, s') = treat_next_patient s now
    in r = Inr None \<and>
       patient_queue s' = patient_queue s \<and>
       patient_records s' = patient_records s \<and>
       specializations s' = specializations s \<and>
       hospital_name s' = hospital_name s \<and>
       current_treatment_id s' = None \<and>
       current_patient_name s' = None \<and>
       current_patient_condition s' = None \<and>
       current_patient_doctor s' = None)"
  by (simp add: treat_next_patient_def dequeue_def)

lemma drained_empty:
  "is_empty (patient_queue (run demo_system [TreatNext ''2026-01-01 10:00:00'',
      TreatNext ''2026-01-01 10:30:00'']))"
  by (simp add: eval_defs)

theorem treat_next_empty_queue_witness:
  "is_empty (patient_queue (run demo_system [TreatNext ''2026-01-01 10:00:00'',
      TreatNext ''2026-01-01 10:30:00''])) \<and>
   fst (treat_next_patient (run demo_system [TreatNext ''2026-01-01 10:00:00'',
      TreatNext ''2026-01-01 10:30:00'']) ''2026-01-01 11:00:00'') = Inr None \<and>
   patient_records (snd (treat_next_patient (run demo_system [TreatNext ''2026-01-01 10:00:00'',
      TreatNext ''2026-01-01 10:30:00'']) ''2026-01-01 11:00:00'')) =
   patient_records (run demo_system [TreatNext ''2026-01-01 10:00:00'',
      TreatNext ''2026-01-01 10:30:00''])"
  using treat_next_empty_queue [OF drained_empty, of "''2026-01-01 11:00:00''"] drained_empty
  by (simp add: split_beta)

text \<open>
  Claim C5. The undo handler has three outcomes. With no current patient it answers 400
  with \<^verbatim>\<open>"No patient currently selected for treatment."\<close> and the state is untouched. With a
  current patient whose history is empty it answers \<^verbatim>\<open>"Treatment history is empty. Nothing
  to undo."\<close> and the state, every stack included, is untouched. With a current patient whose
  history is not empty it answers \<^verbatim>\<open>"Last treatment step successfully undone."\<close> and the
  only change is that this patient's history has lost its most recent entry.
\<close>

theorem undo_three_outcomes:
  "(\<not> truthy (current_treatment_id s) \<longrightarrow>
      api_undo_treatment s =
        (\<lparr>http_code = 400, status_field = ''error'',
          message = ''No patient currently selected for treatment.''\<rparr>, s)) \<and>
   (truthy (current_treatment_id s) \<and> current_treatment_id s = Some cur \<and>
    patient_records s cur = Some ledger \<and> items ledger = [] \<longrightarrow>
      api_undo_treatment s =
        (\<lparr>http_code = 200, status_field = ''info'',
          message = ''Treatment history is empty. Nothing to undo.''\<rparr>, s)) \<and>
   (truthy (current_treatment_id s) \<and> current_treatment_id s = Some cur \<and>
    patient_records s cur = Some ledger \<and> items ledger \<noteq> [] \<longrightarrow>
      api_undo_treatment s =
        (\<lparr>http_code = 200, status_field = ''info'',
          message = ''Last treatment step successfully undone.''\<rparr>,
         s\<lparr>patient_records := (patient_records s)(cur \<mapsto> ledger\<lparr>items := butlast (items ledger)\<rparr>)\<rparr>))"
  by (auto simp: api_undo_treatment_def undo_last_treatment_def pop_def map_upd_triv)

theorem undo_three_outcomes_witness:
  "\<not> truthy (current_treatment_id demo_system) \<and>
   fst (api_undo_treatment demo_system) =
     \<lparr>http_code = 400, status_field = ''error'',
      message = ''No patient currently selected for treatment.''\<rparr> \<and>
   map_option items (patient_records (run demo_system [TreatNext ''2026-01-01 10:00:00'', Undo])
      ''0a1b2c3d'') = Some [] \<and>
   api_undo_treatment (run demo_system [TreatNext ''2026-01-01 10:00:00'', Undo]) =
     (\<lparr>http_code = 200, status_field = ''info'',
       message = ''Treatment history is empty. Nothing to undo.''\<rparr>,
      run demo_system [TreatNext ''2026-01-01 10:00:00'', Undo]) \<and>
   map_option items (patient_records (run demo_system [TreatNext ''2026-01-01 10:00:00''])
      ''0a1b2c3d'') =
     Some [\<lparr>timestamp = ''2026-01-01 10:00:00'',
            detail = Some ''Initial Triage for Severe fever.''\<rparr>] \<and>
   fst (api_undo_treatment (run demo_system [TreatNext ''2026-01-01 10:00:00''])) =
     \<lparr>http_code = 200, status_field = ''info'',
      message = ''Last treatment step successfully undone.''\<rparr> \<and>
   map_option items (patient_records
      (snd (api_undo_treatment (run demo_system [TreatNext ''2026-01-01 10:00:00''])))
      ''0a1b2c3d'') = Some []"
proof -
  let ?B = "run demo_system [TreatNext ''2026-01-01 10:00:00'', Undo]"
  let ?C = "run demo_system [TreatNext ''2026-01-01 10:00:00'']"
  have a: "\<not> truthy (current_treatment_id demo_system)"
    by (simp add: eval_defs)
  have b: "truthy (current_treatment_id ?B) \<and> current_treatment_id ?B = Some ''0a1b2c3d'' \<and>
      patient_records ?B ''0a1b2c3d'' =
        Some \<lparr>items = [], stack_patient_id = Some ''0a1b2c3d'', initial_condition = ''Severe fever'',
               status = ''In Treatment'', assigned_doctor = None\<rparr> \<and>
      items \<lparr>items = [], stack_patient_id = Some ''0a1b2c3d'', initial_condition = ''Severe fever'',
               status = ''In Treatment'', assigned_doctor = None\<rparr> = []"
    by (simp add: eval_defs)
  have c: "truthy (current_treatment_id ?C) \<and> current_treatment_id ?C = Some ''0a1b2c3d'' \<and>
      patient_records ?C ''0a1b2c3d'' =
        Some \<lparr>items = [\<lparr>timestamp = ''2026-01-01 10:00:00'',
                         detail = Some ''Initial Triage for Severe fever.''\<rparr>],
               stack_patient_id = Some ''0a1b2c3d'', initial_condition = ''Severe fever'',
               status = ''In Treatment'', assigned_doctor = None\<rparr> \<and>
      items \<lparr>items = [\<lparr>timestamp = ''2026-01-01 10:00:00'',
                         detail = Some ''Initial Triage for Severe fever.''\<rparr>],
               stack_patient_id = Some ''0a1b2c3d'', initial_condition = ''Severe fever'',
               status = ''In Treatment'', assigned_doctor = None\<rparr> \<noteq> []"
    by (simp add: eval_defs)
  from undo_three_outcomes [where s = demo_system] a
  have ra: "api_undo_treatment demo_system =
      (\<lparr>http_code = 400, status_field = ''error'',
        message = ''No patient currently selected for treatment.''\<rparr>, demo_system)"
    by blast
  from undo_three_outcomes [where s = ?B and cur = "''0a1b2c3d''"
      and ledger = "\<lparr>items = [], stack_patient_id = Some ''0a1b2c3d'',
        initial_condition = ''Severe fever'', status = ''In Treatment'', assigned_doctor = None\<rparr>"] b
  have rb: "api_undo_treatment ?B =
      (\<lparr>http_code = 200, status_field = ''info'',
        message = ''Treatment history is empty. Nothing to undo.''\<rparr>, ?B)"
    by blast
  from undo_three_outcomes [where s = ?C and cur = "''0a1b2c3d''"
      and ledger = "\<lparr>items = [\<lparr>timestamp = ''2026-01-01 10:00:00'',
                         detail = Some ''Initial Triage for Severe fever.''\<rparr>],
        stack_patient_id = Some ''0a1b2c3d'',
        initial_condition = ''Severe fever'', status = ''In Treatment'', assigned_doctor = None\<rparr>"] c
  have rc: "api_undo_treatment ?C =
      (\<lparr>http_code = 200, status_field = ''info'',
        message = ''Last treatment step successfully undone.''\<rparr>,
       ?C\<lparr>patient_records := (patient_records ?C)(''0a1b2c3d'' \<mapsto>
          \<lparr>items = [], stack_patient_id = Some ''0a1b2c3d'',
        initial_condition = ''Severe fever'', status = ''In Treatment'', assigned_doctor = None\<rparr>)\<rparr>)"
    by simp
  show ?thesis
    using ra rb rc a b c by simp
qed

lemma scan_queue_terminates: "chain st r as \<Longrightarrow> \<exists>res. scan_queue st r pid = Some res"
proof (induction as arbitrary: r)
  case Nil
  then show ?case by (subst scan_queue.simps) simp
next
  case (Cons a as)
  then have r: "r = Some a" and ch: "chain st (nxt (st ! a)) as" by simp_all
  from Cons.IH [OF ch] obtain res where "scan_queue st (nxt (st ! a)) pid = Some res" ..
  then show ?case unfolding r by (subst scan_queue.simps) simp
qed

lemma get_patient_name_by_id_returns:
  "queue_inv (patient_queue s) as \<Longrightarrow> \<exists>nm. get_patient_name_by_id s pid = Some nm"
  using scan_queue_terminates [of "store (patient_queue s)" "head (patient_queue s)" as pid]
  by (auto simp: get_patient_name_by_id_def queue_inv_def)

text \<open>
  Claim C6, as amended. In every reachable state, \<^verbatim>\<open>get_patient_record\<close> returns for a key
  of \<^verbatim>\<open>patient_records\<close> a record whose single visit reports as registration time the
  timestamp of the first (oldest) history entry when the history is not empty, and the
  string \<^verbatim>\<open>"N/A"\<close> when it is empty; for any other identity it returns \<^verbatim>\<open>None\<close>. In both
  cases the call returns: the scan of the queue for the name ends.
\<close>

theorem get_patient_record_registration_time:
  "(let s = run (HospitalManagementSystem_init hospital uuid1 uuid2) ops
    in case patient_records s pid of
         None \<Rightarrow> get_patient_record s pid = Some None
       | Some ledger \<Rightarrow>
           (\<exists>v. get_patient_record s pid = Some (Some v) \<and>
                map registration_time (full_visits v) =
                  [if items ledger = [] then ''N/A'' else timestamp (hd (items ledger))]))"
proof -
  let ?s = "run (HospitalManagementSystem_init hospital uuid1 uuid2) ops"
  from keys_ok_reachable obtain as where "keys_ok ?s as" by blast
  then have "queue_inv (patient_queue ?s) as" by (simp add: keys_ok_def)
  from get_patient_name_by_id_returns [OF this, of pid]
  obtain nm where "get_patient_name_by_id ?s pid = Some nm" ..
  then show ?thesis
    by (simp add: get_patient_record_def get_history_def hd_conv_nth Let_def split: option.splits)
qed

theorem get_patient_record_registration_time_witness:
  "(\<exists>v. get_patient_record (run demo_system [TreatNext ''2026-01-01 10:00:00'']) ''0a1b2c3d'' =
          Some (Some v) \<and>
        map registration_time (full_visits v) = [''2026-01-01 10:00:00'']) \<and>
   (\<exists>v. get_patient_record (run demo_system [TreatNext ''2026-01-01 10:00:00'']) ''4e5f6a7b'' =
          Some (Some v) \<and>
        map registration_time (full_visits v) = [''N/A''])"
  using
    get_patient_record_registration_time [where hospital = "''City General Hospital''"
      and ?uuid1.0 = "''0a1b2c3d-1111-4111-8111-111111111111''"
      and ?uuid2.0 = "''4e5f6a7b-2222-4222-9222-222222222222''"
      and ops = "[TreatNext ''2026-01-01 10:00:00'']" and pid = "''0a1b2c3d''"]
    get_patient_record_registration_time [where hospital = "''City General Hospital''"
      and ?uuid1.0 = "''0a1b2c3d-1111-4111-8111-111111111111''"
      and ?uuid2.0 = "''4e5f6a7b-2222-4222-9222-222222222222''"
      and ops = "[TreatNext ''2026-01-01 10:00:00'']" and pid = "''4e5f6a7b''"]
  by (simp add: eval_defs)

text \<open>
  The claim as first stated has \<^verbatim>\<open>"unknown"\<close> for the empty history. In the system as
  constructed the first pre-loaded patient has an empty history, and the record returned
  for it carries \<^verbatim>\<open>"N/A"\<close>.
\<close>

theorem registration_time_unknown_counterexample:
  "get_patient_record demo_system ''0a1b2c3d'' =
     Some (Some \<lparr>record_id = ''0a1b2c3d'', record_name = ''Alice Johnson'',
                  full_visits = [\<lparr>registration_time = ''N/A'', visit_condition = ''Severe fever'',
                                   visit_status = ''Waiting'', visit_assigned_doctor = None,
                                   treatment_history = []\<rparr>]\<rparr>) \<and>
   get_patient_record demo_system ''0a1b2c3d'' \<noteq>
     Some (Some \<lparr>record_id = ''0a1b2c3d'', record_name = ''Alice Johnson'',
                  full_visits = [\<lparr>registration_time = ''unknown'', visit_condition = ''Severe fever'',
                                   visit_status = ''Waiting'', visit_assigned_doctor = None,
                                   treatment_history = []\<rparr>]\<rparr>)"
  by (simp add: eval_defs get_patient_record_def get_patient_name_by_id_def get_history_def
      scan_queue.simps)











lemma api_assign_doctor_unchecked:
  "truthy (current_treatment_id s) \<Longrightarrow> current_treatment_id s = Some cur \<Longrightarrow>
   patient_records s cur = Some ledger \<Longrightarrow>
   api_assign_doctor s doctor_name =
     (\<lparr>http_code = 200, status_field = ''success'',
       message = ''Doctor '' @ format_opt doctor_name @ '' assigned to current patient.''\<rparr>,
      s\<lparr>patient_records := (patient_records s)(cur \<mapsto> ledger\<lparr>assigned_doctor := doctor_name\<rparr>)\<rparr>)"
  by (simp add: api_assign_doctor_def assign_doctor_to_current_def)

text \<open>
  Claim C7 says that a doctor assignment without a \<^verbatim>\<open>doctor_name\<close> field is rejected and
  changes nothing. The handler does not look at the field: with a patient in treatment to
  whom a doctor is assigned, the request is answered 200 \<^verbatim>\<open>"Doctor None assigned to
  current patient."\<close> and the assigned doctor of that patient becomes \<^verbatim>\<open>None\<close>. The
  registration handler does reject a request with a missing field.
\<close>

theorem assign_doctor_missing_name_accepted:
  "map_option assigned_doctor
     (patient_records (run demo_system [TreatNext ''2026-01-01 10:00:00'',
        Assign (Some ''Dr. Jose Garcia'')]) ''0a1b2c3d'') = Some (Some ''Dr. Jose Garcia'') \<and>
   fst (api_assign_doctor (run demo_system [TreatNext ''2026-01-01 10:00:00'',
        Assign (Some ''Dr. Jose Garcia'')]) None) =
     \<lparr>http_code = 200, status_field = ''success'',
      message = ''Doctor None assigned to current patient.''\<rparr> \<and>
   map_option assigned_doctor
     (patient_records (snd (api_assign_doctor (run demo_system [TreatNext ''2026-01-01 10:00:00'',
        Assign (Some ''Dr. Jose Garcia'')]) None)) ''0a1b2c3d'') = Some None"
  by (simp add: eval_defs api_assign_doctor_def)

text \<open>The sibling handler: a registration request without a name is rejected and the
  state is left as it was.\<close>

lemma register_missing_field_rejected:
  "api_register_patient s uuid None cond =
     (\<lparr>http_code = 400, status_field = ''error'', message = ''Missing name or condition.''\<rparr>, s)"
  by (simp add: api_register_patient_def)

end
